theory Spec2Isabelle
  imports Main "HOL-Library.Sublist"
begin

section \<open>The Go library functions that helper.go calls\<close>

text \<open>
  Go strings are byte sequences, and so is \<^typ>\<open>string\<close>. The three tests of package
  \<^verbatim>\<open>strings\<close> used by the error translator are written as the Go library computes them.
\<close>

definition HasPrefix :: "string \<Rightarrow> string \<Rightarrow> bool" where
  "HasPrefix s p \<longleftrightarrow> length p \<le> length s \<and> take (length p) s = p"

definition HasSuffix :: "string \<Rightarrow> string \<Rightarrow> bool" where
  "HasSuffix s x \<longleftrightarrow> length x \<le> length s \<and> drop (length s - length x) s = x"

fun Contains :: "string \<Rightarrow> string \<Rightarrow> bool" where
  "Contains [] sub = (sub = [])"
| "Contains (c # s) sub = (HasPrefix (c # s) sub \<or> Contains s sub)"

subsection \<open>Formatting\<close>

text \<open>
  \<^verbatim>\<open>%d\<close> prints an \<^verbatim>\<open>int\<close> in decimal, with a minus sign when it is negative. No
  arithmetic is done on the formatted integers, so they are \<^typ>\<open>int\<close>.
\<close>

fun decimal :: "nat \<Rightarrow> string" where
  "decimal n =
     (if n < 10 then [''0123456789'' ! n]
      else decimal (n div 10) @ [''0123456789'' ! (n mod 10)])"

declare decimal.simps [simp del]

definition fmt_d :: "int \<Rightarrow> string" where
  "fmt_d i = (if i < 0 then CHR ''-'' # decimal (nat (- i)) else decimal (nat i))"

text \<open>
  An operand of \<^verbatim>\<open>Sprintf\<close>: an \<^verbatim>\<open>int\<close>, a \<^verbatim>\<open>string\<close>, or a value that
  implements \<^verbatim>\<open>error\<close>, held as the text its \<^verbatim>\<open>Error()\<close> method returns.
\<close>

datatype arg = IntArg int | StringArg string | ErrorArg string

definition bad_verb :: "char \<Rightarrow> string \<Rightarrow> string \<Rightarrow> string" where
  "bad_verb v ty txt = ''%!'' @ [v] @ ''('' @ ty @ ''='' @ txt @ '')''"

fun fmt_verb :: "char \<Rightarrow> arg \<Rightarrow> string" where
  "fmt_verb v (IntArg i) =
     (if v = CHR ''d'' \<or> v = CHR ''v'' then fmt_d i else bad_verb v ''int'' (fmt_d i))"
| "fmt_verb v (StringArg s) =
     (if v = CHR ''s'' \<or> v = CHR ''v'' then s else bad_verb v ''string'' s)"
| "fmt_verb v (ErrorArg s) =
     (if v = CHR ''s'' \<or> v = CHR ''v'' then s else bad_verb v ''error'' s)"

fun arg_text :: "arg \<Rightarrow> string" where
  "arg_text (IntArg i) = ''int='' @ fmt_d i"
| "arg_text (StringArg s) = ''string='' @ s"
| "arg_text (ErrorArg s) = ''error='' @ s"

fun join_args :: "arg list \<Rightarrow> string" where
  "join_args [] = []"
| "join_args [a] = arg_text a"
| "join_args (a # b # as) = arg_text a @ '', '' @ join_args (b # as)"

definition extra_args :: "arg list \<Rightarrow> string" where
  "extra_args as = (if as = [] then [] else ''%!(EXTRA '' @ join_args as @ '')'')"

text \<open>
  \<^verbatim>\<open>fmt.Sprintf\<close> for the directives helper.go writes: \<^verbatim>\<open>%d\<close>, \<^verbatim>\<open>%s\<close> and
  \<^verbatim>\<open>%+v\<close> (a flag and the verb \<^verbatim>\<open>v\<close>), and \<^verbatim>\<open>%%\<close>. Every call in helper.go
  gives each verb an operand of the verb's type; the other combinations print Go's
  bad-verb notation and are never reached from there.
\<close>

fun Sprintf :: "string \<Rightarrow> arg list \<Rightarrow> string" where
  "Sprintf [] as = extra_args as"
| "Sprintf [c] as = (if c = CHR ''%'' then ''%!(NOVERB)'' @ extra_args as else c # extra_args as)"
| "Sprintf (c # d # f) as =
     (if c \<noteq> CHR ''%'' then c # Sprintf (d # f) as
      else if d = CHR ''%'' then CHR ''%'' # Sprintf f as
      else if d \<in> set ''+-# 0'' then Sprintf (c # f) as
      else (case as of
              [] \<Rightarrow> ''%!'' @ [d] @ ''(MISSING)'' @ Sprintf f []
            | a # as' \<Rightarrow> fmt_verb d a @ Sprintf f as'))"

text \<open>
  An \<^verbatim>\<open>error\<close> built by \<^verbatim>\<open>errors.New\<close> or \<^verbatim>\<open>errors.Errorf\<close> is never nil; it is
  modelled by its message.
\<close>

type_synonym error = string

definition New :: "string \<Rightarrow> error" where
  "New msg = msg"

definition Errorf :: "string \<Rightarrow> arg list \<Rightarrow> error" where
  "Errorf f as = Sprintf f as"

section \<open>Validation failures\<close>

text \<open>
  The dynamic value of a failed field, as \<^verbatim>\<open>FieldError.Value()\<close> returns it in an
  \<^verbatim>\<open>interface{}\<close>: an \<^verbatim>\<open>int\<close>, a \<^verbatim>\<open>string\<close>, or a value of another type.
\<close>

datatype val = IntValue int | StringValue string | OtherValue

text \<open>
  A \<^verbatim>\<open>validator.FieldError\<close>. The translator reads its namespace and its value; the
  extension of the record stands for what else the validator stores in it.
\<close>

record FieldError =
  Namespace :: string
  Value :: val

text \<open>
  The constants of package \<^verbatim>\<open>common\<close> that helper.go names. They are declared in
  another file of the package, so the functions below take them as a parameter.
\<close>

record constants =
  MinDiskSizeGB :: int
  MaxDiskSizeGB :: int
  MinIPAddressCount :: int
  MaxIPAddressCount :: int
  MinAgentCount :: int
  MaxAgentCount :: int
  MinPort :: int
  MaxPort :: int
  MaxDisks :: int
  StorageAccount :: string
  ManagedDisks :: string
  Ephemeral :: string
  ContainerDataDirKey :: string

text \<open>
  What stops a Go function without a return value: an index out of range, or a type
  assertion \<^verbatim>\<open>x.(T)\<close> on a value whose dynamic type is not \<^verbatim>\<open>T\<close>.
\<close>

datatype panic = IndexOutOfRange | TypeAssertionFailed

definition assert_int :: "val \<Rightarrow> panic + int" where
  "assert_int v = (case v of IntValue i \<Rightarrow> Inr i | _ \<Rightarrow> Inl TypeAssertionFailed)"

definition assert_string :: "val \<Rightarrow> panic + string" where
  "assert_string v = (case v of StringValue s \<Rightarrow> Inr s | _ \<Rightarrow> Inl TypeAssertionFailed)"

section \<open>HandleValidationErrors\<close>

text \<open>
  The last statement of the function: the message for a namespace that no case caught.
  \<^verbatim>\<open>%+v\<close> prints the batch \<^verbatim>\<open>e\<close> through its \<^verbatim>\<open>Error()\<close> method, which belongs
  to the validator library and is the parameter \<open>Error\<close>.
\<close>

definition not_caught ::
  "('a FieldError_scheme list \<Rightarrow> string) \<Rightarrow> string \<Rightarrow> 'a FieldError_scheme list \<Rightarrow> panic + error" where
  "not_caught Error ns e =
     Inr (Errorf ''Namespace %s is not caught, %+v'' [StringArg ns, ErrorArg (Error e)])"

fun HandleValidationErrors ::
  "constants \<Rightarrow> ('a FieldError_scheme list \<Rightarrow> string) \<Rightarrow> 'a FieldError_scheme list
     \<Rightarrow> panic + error" where
  "HandleValidationErrors k Error [] = Inl IndexOutOfRange"
| "HandleValidationErrors k Error (err # rest) =
    (let e = err # rest; ns = Namespace err in
     if ns \<in> set [''Properties.OrchestratorProfile'',
                   ''Properties.OrchestratorProfile.OrchestratorType'',
                   ''Properties.MasterProfile'', ''Properties.MasterProfile.DNSPrefix'',
                   ''Properties.MasterProfile.VMSize'',
                   ''Properties.LinuxProfile'', ''Properties.ServicePrincipalProfile.ClientID'',
                   ''Properties.WindowsProfile.AdminUsername'',
                   ''Properties.WindowsProfile.AdminPassword'']
     then Inr (Errorf ''missing %s'' [StringArg ns])
     else if ns = ''Properties.MasterProfile.Count''
     then Inr (New ''MasterProfile count needs to be 1, 3, or 5'')
     else if ns = ''Properties.MasterProfile.OSDiskSizeGB''
     then (case assert_int (Value err) of
             Inl p \<Rightarrow> Inl p
           | Inr v \<Rightarrow> Inr (Errorf ''Invalid os disk size of %d specified.  The range of valid values are [%d, %d]''
                             [IntArg v, IntArg (MinDiskSizeGB k), IntArg (MaxDiskSizeGB k)]))
     else if ns = ''Properties.MasterProfile.IPAddressCount''
     then Inr (Errorf ''MasterProfile.IPAddressCount needs to be in the range [%d,%d]''
                 [IntArg (MinIPAddressCount k), IntArg (MaxIPAddressCount k)])
     else if ns = ''Properties.MasterProfile.StorageProfile''
     then (case assert_string (Value err) of
             Inl p \<Rightarrow> Inl p
           | Inr s \<Rightarrow> Inr (Errorf ''Unknown storageProfile '%s'. Specify either %s or %s''
                             [StringArg s, StringArg (StorageAccount k), StringArg (ManagedDisks k)]))
     else if HasPrefix ns ''Properties.AgentPoolProfiles''
     then (if HasSuffix ns ''.Name'' \<or> HasSuffix ns ''VMSize''
           then Inr (Errorf ''missing %s'' [StringArg ns])
           else if HasSuffix ns ''.Count''
           then Inr (Errorf ''AgentPoolProfile count needs to be in the range [%d,%d]''
                       [IntArg (MinAgentCount k), IntArg (MaxAgentCount k)])
           else if HasSuffix ns ''.OSDiskSizeGB''
           then (case assert_int (Value err) of
                   Inl p \<Rightarrow> Inl p
                 | Inr v \<Rightarrow> Inr (Errorf ''Invalid os disk size of %d specified.  The range of valid values are [%d, %d]''
                                   [IntArg v, IntArg (MinDiskSizeGB k), IntArg (MaxDiskSizeGB k)]))
           else if Contains ns ''.Ports''
           then Inr (Errorf ''AgentPoolProfile Ports must be in the range[%d, %d]''
                       [IntArg (MinPort k), IntArg (MaxPort k)])
           else if HasSuffix ns ''.StorageProfile''
           then (case assert_string (Value err) of
                   Inl p \<Rightarrow> Inl p
                 | Inr s \<Rightarrow> Inr (Errorf ''Unknown storageProfile '%s'. Specify %s, %s, or %s''
                                   [StringArg s, StringArg (StorageAccount k), StringArg (ManagedDisks k),
                                    StringArg (Ephemeral k)]))
           else if Contains ns ''.DiskSizesGB''
           then Inr (Errorf ''A maximum of %d disks may be specified, The range of valid disk size values are [%d, %d]''
                       [IntArg (MaxDisks k), IntArg (MinDiskSizeGB k), IntArg (MaxDiskSizeGB k)])
           else if HasSuffix ns ''.IPAddressCount''
           then Inr (Errorf ''AgentPoolProfile.IPAddressCount needs to be in the range [%d,%d]''
                       [IntArg (MinIPAddressCount k), IntArg (MaxIPAddressCount k)])
           else not_caught Error ns e)
     else not_caught Error ns e)"

section \<open>Runtime configurations\<close>

text \<open>
  The configuration structs are declared in another file of the package. The records
  have the fields that helper.go reads or writes, under the names it uses; the extension
  of each record stands for the fields it does not mention. A Go map or slice can be nil,
  which is \<open>None\<close>.
\<close>

record DockerDaemonRuntime =
  Path :: string
  RuntimeArgs :: "string list option"

record DockerConfig =
  DataRoot :: string
  DefaultRuntime :: string
  DockerDaemonRuntimes :: "(string \<rightharpoonup> DockerDaemonRuntime) option"

record CNIFields =
  ConfTemplate :: string

record 'cni CriFields =
  SandboxImage :: string
  CNI :: "'cni CNIFields_scheme"

record ('cni, 'cri) PluginsFields =
  IoContainerdGrpcV1Cri :: "('cni, 'cri) CriFields_scheme"

record ('cni, 'cri, 'pl) ContainerdConfig =
  Root :: string
  Plugins :: "('cni, 'cri, 'pl) PluginsFields_scheme"

text \<open>
  An override receives a pointer to the configuration and returns an \<^verbatim>\<open>error\<close>: it
  maps the configuration to the configuration it leaves behind and the error, \<open>None\<close>
  for nil.
\<close>

type_synonym ('c, 'e) override = "'c \<Rightarrow> 'c \<times> 'e option"

text \<open>
  The loop \<^verbatim>\<open>for i := range overrides\<close> of both composers: it stops at the first
  override that returns an error, with that error.
\<close>

fun apply_overrides :: "('c, 'e) override list \<Rightarrow> 'c \<Rightarrow> 'e + 'c" where
  "apply_overrides [] config = Inr config"
| "apply_overrides (f # fs) config =
     (case f config of
        (config', Some err) \<Rightarrow> Inl err
      | (config', None) \<Rightarrow> apply_overrides fs config')"

text \<open>
  \<^verbatim>\<open>GetDefaultDockerConfig\<close> and \<^verbatim>\<open>json.MarshalIndent\<close> are parameters: the first is
  declared in another file, the second is Go's JSON encoder, which returns the bytes and
  an error.
\<close>

definition GetDockerConfig ::
  "constants \<Rightarrow> 'a DockerConfig_scheme
     \<Rightarrow> ('a DockerConfig_scheme \<Rightarrow> string \<Rightarrow> string \<Rightarrow> string \<times> 'e option)
     \<Rightarrow> (string \<rightharpoonup> string) \<Rightarrow> ('a DockerConfig_scheme, 'e) override list
     \<Rightarrow> string \<times> 'e option" where
  "GetDockerConfig k GetDefaultDockerConfig MarshalIndent opts overrides =
     (case apply_overrides overrides GetDefaultDockerConfig of
        Inl err \<Rightarrow> ('''', Some err)
      | Inr config \<Rightarrow>
          (let config' = (case opts (ContainerDataDirKey k) of
                            Some dataDir \<Rightarrow> config\<lparr>DataRoot := dataDir\<rparr>
                          | None \<Rightarrow> config)
           in MarshalIndent config' '''' ''    ''))"

text \<open>
  \<^verbatim>\<open>Encode\<close> is the TOML encoder: it returns what it wrote to the buffer and an error.
\<close>

definition GetContainerdConfig ::
  "constants \<Rightarrow> ('cni, 'cri, 'pl, 'a) ContainerdConfig_scheme
     \<Rightarrow> (('cni, 'cri, 'pl, 'a) ContainerdConfig_scheme \<Rightarrow> string \<times> 'e option)
     \<Rightarrow> (string \<rightharpoonup> string)
     \<Rightarrow> (('cni, 'cri, 'pl, 'a) ContainerdConfig_scheme, 'e) override list
     \<Rightarrow> string \<times> 'e option" where
  "GetContainerdConfig k GetDefaultContainerdConfig Encode opts overrides =
     (case apply_overrides overrides GetDefaultContainerdConfig of
        Inl err \<Rightarrow> ('''', Some err)
      | Inr config \<Rightarrow>
          (let config' = (case opts (ContainerDataDirKey k) of
                            Some dataDir \<Rightarrow> config\<lparr>Root := dataDir\<rparr>
                          | None \<Rightarrow> config)
           in Encode config'))"

definition ContainerdKubenetOverride ::
  "(('cni, 'cri, 'pl, 'a) ContainerdConfig_scheme, 'e) override" where
  "ContainerdKubenetOverride config =
     (config\<lparr>Plugins := (Plugins config)\<lparr>IoContainerdGrpcV1Cri :=
        (IoContainerdGrpcV1Cri (Plugins config))\<lparr>CNI :=
          (CNI (IoContainerdGrpcV1Cri (Plugins config)))\<lparr>ConfTemplate :=
            ''/etc/containerd/kubenet_template.conf''\<rparr>\<rparr>\<rparr>\<rparr>, None)"

definition ContainerdSandboxImageOverrider ::
  "string \<Rightarrow> (('cni, 'cri, 'pl, 'a) ContainerdConfig_scheme, 'e) override" where
  "ContainerdSandboxImageOverrider img = (\<lambda>config.
     (config\<lparr>Plugins := (Plugins config)\<lparr>IoContainerdGrpcV1Cri :=
        (IoContainerdGrpcV1Cri (Plugins config))\<lparr>SandboxImage := img\<rparr>\<rparr>\<rparr>, None))"

text \<open>
  After the nil test the registry is a map, the one the configuration had or a new empty
  one; the assignment then stores the runtime under the key.
\<close>

definition DockerNvidiaOverride :: "('a DockerConfig_scheme, 'e) override" where
  "DockerNvidiaOverride config =
     (let runtimes = (case DockerDaemonRuntimes config of
                        None \<Rightarrow> Map.empty
                      | Some m \<Rightarrow> m)
      in (config\<lparr>DefaultRuntime := ''nvidia'',
                 DockerDaemonRuntimes := Some (runtimes(''nvidia'' \<mapsto>
                   \<lparr>Path = ''/usr/bin/nvidia-container-runtime'', RuntimeArgs = Some []\<rparr>))\<rparr>,
          None))"

section \<open>Sample values\<close>

text \<open>
  Values for the constants, for running the functions on concrete inputs. Every theorem
  below is proved for all values of the constants.
\<close>

definition sample_constants :: constants where
  "sample_constants =
     \<lparr>MinDiskSizeGB = 2, MaxDiskSizeGB = 1023, MinIPAddressCount = 1, MaxIPAddressCount = 256,
      MinAgentCount = 1, MaxAgentCount = 1000, MinPort = 1, MaxPort = 65535, MaxDisks = 4,
      StorageAccount = ''StorageAccount'', ManagedDisks = ''ManagedDisks'',
      Ephemeral = ''Ephemeral'', ContainerDataDirKey = ''dataDir''\<rparr>"

text \<open>
  A stand-in for the \<^verbatim>\<open>Error()\<close> method of a batch, which prints every failure of
  the batch: here it prints their namespaces.
\<close>

definition sample_Error :: "FieldError list \<Rightarrow> string" where
  "sample_Error e = concat (map Namespace e)"

text \<open>
  Default configurations and encoders to run the composers on. The encoders stand in for
  the JSON and TOML libraries: they print the fields that helper.go writes.
\<close>

definition sample_docker_defaults :: DockerConfig where
  "sample_docker_defaults =
     \<lparr>DataRoot = ''/var/lib/docker'', DefaultRuntime = ''runc'', DockerDaemonRuntimes = None\<rparr>"

definition sample_MarshalIndent :: "DockerConfig \<Rightarrow> string \<Rightarrow> string \<Rightarrow> string \<times> string option" where
  "sample_MarshalIndent config pre indent =
     (pre @ indent @ ''data-root='' @ DataRoot config
        @ '' default-runtime='' @ DefaultRuntime config, None)"

definition sample_containerd_defaults :: "(unit, unit, unit) ContainerdConfig" where
  "sample_containerd_defaults =
     \<lparr>Root = ''/var/lib/containerd'',
      Plugins = \<lparr>IoContainerdGrpcV1Cri =
        \<lparr>SandboxImage = ''pause:1.0'', CNI = \<lparr>ConfTemplate = []\<rparr>\<rparr>\<rparr>\<rparr>"

definition sample_Encode :: "(unit, unit, unit) ContainerdConfig \<Rightarrow> string \<times> string option" where
  "sample_Encode config =
     (''root='' @ Root config
        @ '' sandbox_image='' @ SandboxImage (IoContainerdGrpcV1Cri (Plugins config))
        @ '' conf_template='' @ ConfTemplate (CNI (IoContainerdGrpcV1Cri (Plugins config))), None)"

text \<open>Overrides to run the composers on: three that write one field each, and one that fails.\<close>

definition set_data_root :: "string \<Rightarrow> (DockerConfig, string) override" where
  "set_data_root dir config = (config\<lparr>DataRoot := dir\<rparr>, None)"

definition set_default_runtime :: "string \<Rightarrow> (DockerConfig, string) override" where
  "set_default_runtime name config = (config\<lparr>DefaultRuntime := name\<rparr>, None)"

definition set_root :: "string \<Rightarrow> ((unit, unit, unit) ContainerdConfig, string) override" where
  "set_root dir config = (config\<lparr>Root := dir\<rparr>, None)"

definition failing_override :: "string \<Rightarrow> ('c, string) override" where
  "failing_override msg config = (config, Some msg)"

section \<open>The string tests are those of the list library\<close>

lemma HasPrefix_iff_prefix: "HasPrefix s p \<longleftrightarrow> prefix p s"
  by (auto simp: HasPrefix_def prefix_def) (metis append_take_drop_id)

lemma HasSuffix_iff_suffix: "HasSuffix s x \<longleftrightarrow> suffix x s"
proof
  assume h: "HasSuffix s x"
  then have "s = take (length s - length x) s @ x"
    by (metis HasSuffix_def append_take_drop_id)
  then show "suffix x s" by (metis suffixI)
next
  assume "suffix x s"
  then obtain zs where "s = zs @ x" by (auto simp: suffix_def)
  then show "HasSuffix s x" by (simp add: HasSuffix_def)
qed

lemma Contains_iff_sublist: "Contains s sub \<longleftrightarrow> sublist sub s"
  by (induction s) (auto simp: HasPrefix_iff_prefix sublist_Cons_right)

lemma Contains_middle: "Contains (a @ b @ c) b"
  by (simp add: Contains_iff_sublist)

lemma HasSuffix_excl:
  "\<not> suffix x y \<Longrightarrow> \<not> suffix y x \<Longrightarrow> HasSuffix s x \<Longrightarrow> \<not> HasSuffix s y"
  unfolding HasSuffix_iff_suffix by (meson suffix_same_cases)


section \<open>The two stages of the error translator\<close>

declare HandleValidationErrors.simps [simp del]

lemmas fmt_defs = Errorf_def New_def extra_args_def

lemmas hve_defs = HandleValidationErrors.simps Let_def not_caught_def assert_int_def
  assert_string_def

lemmas fmt_eval = sample_constants_def fmt_d_def decimal.simps

lemma agent_pool_not_exact:
  assumes "HasPrefix ns ''Properties.AgentPoolProfiles''"
  shows "ns \<notin> set [''Properties.OrchestratorProfile'',
                   ''Properties.OrchestratorProfile.OrchestratorType'',
                   ''Properties.MasterProfile'', ''Properties.MasterProfile.DNSPrefix'',
                   ''Properties.MasterProfile.VMSize'',
                   ''Properties.LinuxProfile'', ''Properties.ServicePrincipalProfile.ClientID'',
                   ''Properties.WindowsProfile.AdminUsername'',
                   ''Properties.WindowsProfile.AdminPassword'',
                   ''Properties.MasterProfile.Count'',
                   ''Properties.MasterProfile.OSDiskSizeGB'',
                   ''Properties.MasterProfile.IPAddressCount'',
                   ''Properties.MasterProfile.StorageProfile'']"
  using assms by (auto simp: HasPrefix_def)

lemma agent_pool_stage:
  assumes "HasPrefix (Namespace err) ''Properties.AgentPoolProfiles''"
  shows "HandleValidationErrors k Error (err # rest) =
    (let ns = Namespace err in
           if HasSuffix ns ''.Name'' \<or> HasSuffix ns ''VMSize''
           then Inr (''missing '' @ ns)
           else if HasSuffix ns ''.Count''
           then Inr (''AgentPoolProfile count needs to be in the range ['' @ fmt_d (MinAgentCount k)
                      @ '','' @ fmt_d (MaxAgentCount k) @ '']'')
           else if HasSuffix ns ''.OSDiskSizeGB''
           then (case Value err of
                   IntValue v \<Rightarrow> Inr (''Invalid os disk size of '' @ fmt_d v
                      @ '' specified.  The range of valid values are ['' @ fmt_d (MinDiskSizeGB k)
                      @ '', '' @ fmt_d (MaxDiskSizeGB k) @ '']'')
                 | _ \<Rightarrow> Inl TypeAssertionFailed)
           else if Contains ns ''.Ports''
           then Inr (''AgentPoolProfile Ports must be in the range['' @ fmt_d (MinPort k)
                      @ '', '' @ fmt_d (MaxPort k) @ '']'')
           else if HasSuffix ns ''.StorageProfile''
           then (case Value err of
                   StringValue s \<Rightarrow> Inr (''Unknown storageProfile '' @ [CHR 0x27] @ s @ [CHR 0x27] @ ''. Specify ''
                      @ StorageAccount k @ '', '' @ ManagedDisks k @ '', or '' @ Ephemeral k)
                 | _ \<Rightarrow> Inl TypeAssertionFailed)
           else if Contains ns ''.DiskSizesGB''
           then Inr (''A maximum of '' @ fmt_d (MaxDisks k)
                      @ '' disks may be specified, The range of valid disk size values are [''
                      @ fmt_d (MinDiskSizeGB k) @ '', '' @ fmt_d (MaxDiskSizeGB k) @ '']'')
           else if HasSuffix ns ''.IPAddressCount''
           then Inr (''AgentPoolProfile.IPAddressCount needs to be in the range [''
                      @ fmt_d (MinIPAddressCount k) @ '','' @ fmt_d (MaxIPAddressCount k) @ '']'')
           else Inr (''Namespace '' @ ns @ '' is not caught, '' @ Error (err # rest)))"
proof -
  note ne = agent_pool_not_exact [OF assms]
  show ?thesis
    using assms ne
    by (simp add: hve_defs fmt_defs split: val.splits)
qed


lemma exact_stage:
  assumes "\<not> HasPrefix (Namespace err) ''Properties.AgentPoolProfiles''"
    and "Namespace err \<notin> set [''Properties.OrchestratorProfile'',
                   ''Properties.OrchestratorProfile.OrchestratorType'',
                   ''Properties.MasterProfile'', ''Properties.MasterProfile.DNSPrefix'',
                   ''Properties.MasterProfile.VMSize'',
                   ''Properties.LinuxProfile'', ''Properties.ServicePrincipalProfile.ClientID'',
                   ''Properties.WindowsProfile.AdminUsername'',
                   ''Properties.WindowsProfile.AdminPassword'',
                   ''Properties.MasterProfile.Count'',
                   ''Properties.MasterProfile.OSDiskSizeGB'',
                   ''Properties.MasterProfile.IPAddressCount'',
                   ''Properties.MasterProfile.StorageProfile'']"
  shows "HandleValidationErrors k Error (err # rest) =
           Inr (''Namespace '' @ Namespace err @ '' is not caught, '' @ Error (err # rest))"
  using assms by (simp add: hve_defs fmt_defs)

text \<open>
  The order of the tests decides where two of them hold: a namespace that contains
  \<^verbatim>\<open>.Ports\<close> and ends in \<^verbatim>\<open>.Count\<close> gets the count message. An empty batch has
  no first failure, and indexing it panics.
\<close>

lemma first_test_decides:
  "HandleValidationErrors sample_constants sample_Error
     [\<lparr>Namespace = ''Properties.AgentPoolProfiles[0].Ports.Count'', Value = IntValue 0\<rparr>]
     = Inr ''AgentPoolProfile count needs to be in the range [1,1000]''"
  by (simp add: hve_defs fmt_defs fmt_eval HasPrefix_def HasSuffix_def)

lemma empty_batch_panics: "HandleValidationErrors k Error [] = Inl IndexOutOfRange"
  by (simp add: hve_defs)

text \<open>
  The last statement. A namespace that is the label of no case and passes no test of the
  pattern stage, as the code writes the tests, gets the words
  \<^verbatim>\<open>Namespace ... is not caught,\<close> around the whole namespace, followed by the text of
  the whole batch. Both occur in the message as contiguous substrings.
\<close>

lemma fallback_when_no_test_holds:
  assumes "Namespace err \<notin> set [''Properties.OrchestratorProfile'',
                   ''Properties.OrchestratorProfile.OrchestratorType'',
                   ''Properties.MasterProfile'', ''Properties.MasterProfile.DNSPrefix'',
                   ''Properties.MasterProfile.VMSize'',
                   ''Properties.LinuxProfile'', ''Properties.ServicePrincipalProfile.ClientID'',
                   ''Properties.WindowsProfile.AdminUsername'',
                   ''Properties.WindowsProfile.AdminPassword'',
                   ''Properties.MasterProfile.Count'',
                   ''Properties.MasterProfile.OSDiskSizeGB'',
                   ''Properties.MasterProfile.IPAddressCount'',
                   ''Properties.MasterProfile.StorageProfile'']"
    and "\<not> (HasPrefix (Namespace err) ''Properties.AgentPoolProfiles''
            \<and> (HasSuffix (Namespace err) ''.Name'' \<or> HasSuffix (Namespace err) ''VMSize''
               \<or> HasSuffix (Namespace err) ''.Count'' \<or> HasSuffix (Namespace err) ''.OSDiskSizeGB''
               \<or> Contains (Namespace err) ''.Ports'' \<or> HasSuffix (Namespace err) ''.StorageProfile''
               \<or> Contains (Namespace err) ''.DiskSizesGB''
               \<or> HasSuffix (Namespace err) ''.IPAddressCount''))"
  shows "HandleValidationErrors k Error (err # rest)
           = Inr (''Namespace '' @ Namespace err @ '' is not caught, '' @ Error (err # rest))
         \<and> Contains (''Namespace '' @ Namespace err @ '' is not caught, '' @ Error (err # rest))
              (Namespace err)
         \<and> Contains (''Namespace '' @ Namespace err @ '' is not caught, '' @ Error (err # rest))
              (Error (err # rest))"
proof (intro conjI)
  show "HandleValidationErrors k Error (err # rest)
           = Inr (''Namespace '' @ Namespace err @ '' is not caught, '' @ Error (err # rest))"
  proof (cases "HasPrefix (Namespace err) ''Properties.AgentPoolProfiles''")
    case True
    with assms(2) show ?thesis
      by (simp add: agent_pool_stage [OF True] Let_def)
  next
    case False
    from exact_stage [OF False assms(1)] show ?thesis .
  qed
  show "Contains (''Namespace '' @ Namespace err @ '' is not caught, '' @ Error (err # rest))
          (Namespace err)"
    by (rule Contains_middle)
  have "Contains ((''Namespace '' @ Namespace err @ '' is not caught, '') @ Error (err # rest) @ [])
          (Error (err # rest))"
    by (rule Contains_middle)
  then show "Contains (''Namespace '' @ Namespace err @ '' is not caught, '' @ Error (err # rest))
          (Error (err # rest))"
    by simp
qed

lemma bogus_field_fallback:
  "HandleValidationErrors sample_constants sample_Error
     [\<lparr>Namespace = ''Properties.Bogus.Field'', Value = OtherValue\<rparr>,
      \<lparr>Namespace = ''Properties.MasterProfile.Count'', Value = IntValue 2\<rparr>]
     = Inr ''Namespace Properties.Bogus.Field is not caught, Properties.Bogus.FieldProperties.MasterProfile.Count''
   \<and> Contains ''Namespace Properties.Bogus.Field is not caught, Properties.Bogus.FieldProperties.MasterProfile.Count''
        ''Properties.Bogus.Field''
   \<and> Contains ''Namespace Properties.Bogus.Field is not caught, Properties.Bogus.FieldProperties.MasterProfile.Count''
        ''Properties.Bogus.FieldProperties.MasterProfile.Count''"
  using fallback_when_no_test_holds [where k = sample_constants
      and Error = sample_Error
      and err = "\<lparr>Namespace = ''Properties.Bogus.Field'', Value = OtherValue\<rparr>"
      and rest = "[\<lparr>Namespace = ''Properties.MasterProfile.Count'', Value = IntValue 2\<rparr>]"]
  by (simp add: HasPrefix_def sample_Error_def)

section \<open>Messages of the error translator\<close>

text \<open>
  Claim C1. A failure whose namespace is one of the thirteen case labels of the switch
  gets the message of its case: the nine paths of the first case get \<^verbatim>\<open>missing\<close>
  followed by the path, the master count its fixed sentence, the master OS disk size the
  sentence with the offending \<^verbatim>\<open>int\<close> and the bounds \<open>MinDiskSizeGB\<close> and
  \<open>MaxDiskSizeGB\<close>, the master IP address count the sentence with \<open>MinIPAddressCount\<close>
  and \<open>MaxIPAddressCount\<close>, and the master storage profile the sentence with the
  offending \<^verbatim>\<open>string\<close> and the two profiles. The rest of the batch plays no part.
\<close>

theorem exact_table_messages:
  "(Namespace err \<in> set [''Properties.OrchestratorProfile'',
                   ''Properties.OrchestratorProfile.OrchestratorType'',
                   ''Properties.MasterProfile'', ''Properties.MasterProfile.DNSPrefix'',
                   ''Properties.MasterProfile.VMSize'',
                   ''Properties.LinuxProfile'', ''Properties.ServicePrincipalProfile.ClientID'',
                   ''Properties.WindowsProfile.AdminUsername'',
                   ''Properties.WindowsProfile.AdminPassword'']
      \<longrightarrow> HandleValidationErrors k Error (err # rest) = Inr (''missing '' @ Namespace err))
   \<and> (Namespace err = ''Properties.MasterProfile.Count''
      \<longrightarrow> HandleValidationErrors k Error (err # rest)
            = Inr ''MasterProfile count needs to be 1, 3, or 5'')
   \<and> (Namespace err = ''Properties.MasterProfile.OSDiskSizeGB'' \<and> Value err = IntValue v
      \<longrightarrow> HandleValidationErrors k Error (err # rest)
            = Inr (''Invalid os disk size of '' @ fmt_d v
                   @ '' specified.  The range of valid values are ['' @ fmt_d (MinDiskSizeGB k)
                   @ '', '' @ fmt_d (MaxDiskSizeGB k) @ '']''))
   \<and> (Namespace err = ''Properties.MasterProfile.IPAddressCount''
      \<longrightarrow> HandleValidationErrors k Error (err # rest)
            = Inr (''MasterProfile.IPAddressCount needs to be in the range [''
                   @ fmt_d (MinIPAddressCount k) @ '','' @ fmt_d (MaxIPAddressCount k) @ '']''))
   \<and> (Namespace err = ''Properties.MasterProfile.StorageProfile'' \<and> Value err = StringValue s
      \<longrightarrow> HandleValidationErrors k Error (err # rest)
            = Inr (''Unknown storageProfile '' @ [CHR 0x27] @ s @ [CHR 0x27]
                   @ ''. Specify either '' @ StorageAccount k @ '' or '' @ ManagedDisks k))"
proof (intro conjI impI)
  assume "Namespace err \<in> set [''Properties.OrchestratorProfile'',
                   ''Properties.OrchestratorProfile.OrchestratorType'',
                   ''Properties.MasterProfile'', ''Properties.MasterProfile.DNSPrefix'',
                   ''Properties.MasterProfile.VMSize'',
                   ''Properties.LinuxProfile'', ''Properties.ServicePrincipalProfile.ClientID'',
                   ''Properties.WindowsProfile.AdminUsername'',
                   ''Properties.WindowsProfile.AdminPassword'']"
  then show "HandleValidationErrors k Error (err # rest) = Inr (''missing '' @ Namespace err)"
    by (simp add: hve_defs fmt_defs)
next
  assume "Namespace err = ''Properties.MasterProfile.Count''"
  then show "HandleValidationErrors k Error (err # rest)
            = Inr ''MasterProfile count needs to be 1, 3, or 5''"
    by (simp add: hve_defs fmt_defs)
next
  assume "Namespace err = ''Properties.MasterProfile.OSDiskSizeGB'' \<and> Value err = IntValue v"
  then show "HandleValidationErrors k Error (err # rest)
            = Inr (''Invalid os disk size of '' @ fmt_d v
                   @ '' specified.  The range of valid values are ['' @ fmt_d (MinDiskSizeGB k)
                   @ '', '' @ fmt_d (MaxDiskSizeGB k) @ '']'')"
    by (simp add: hve_defs fmt_defs)
next
  assume "Namespace err = ''Properties.MasterProfile.IPAddressCount''"
  then show "HandleValidationErrors k Error (err # rest)
            = Inr (''MasterProfile.IPAddressCount needs to be in the range [''
                   @ fmt_d (MinIPAddressCount k) @ '','' @ fmt_d (MaxIPAddressCount k) @ '']'')"
    by (simp add: hve_defs fmt_defs)
next
  assume "Namespace err = ''Properties.MasterProfile.StorageProfile'' \<and> Value err = StringValue s"
  then show "HandleValidationErrors k Error (err # rest)
            = Inr (''Unknown storageProfile '' @ [CHR 0x27] @ s @ [CHR 0x27]
                   @ ''. Specify either '' @ StorageAccount k @ '' or '' @ ManagedDisks k)"
    by (simp add: hve_defs fmt_defs)
qed

theorem exact_table_messages_witness:
  "HandleValidationErrors sample_constants sample_Error
     [\<lparr>Namespace = ''Properties.LinuxProfile'', Value = OtherValue\<rparr>]
     = Inr ''missing Properties.LinuxProfile''
   \<and> HandleValidationErrors sample_constants sample_Error
     [\<lparr>Namespace = ''Properties.MasterProfile.Count'', Value = IntValue 2\<rparr>]
     = Inr ''MasterProfile count needs to be 1, 3, or 5''
   \<and> HandleValidationErrors sample_constants sample_Error
     [\<lparr>Namespace = ''Properties.MasterProfile.OSDiskSizeGB'', Value = IntValue 4096\<rparr>]
     = Inr ''Invalid os disk size of 4096 specified.  The range of valid values are [2, 1023]''
   \<and> HandleValidationErrors sample_constants sample_Error
     [\<lparr>Namespace = ''Properties.MasterProfile.IPAddressCount'', Value = IntValue 0\<rparr>]
     = Inr ''MasterProfile.IPAddressCount needs to be in the range [1,256]''
   \<and> HandleValidationErrors sample_constants sample_Error
     [\<lparr>Namespace = ''Properties.MasterProfile.StorageProfile'', Value = StringValue ''Premium''\<rparr>]
     = Inr ''Unknown storageProfile 'Premium'. Specify either StorageAccount or ManagedDisks''"
  using
    exact_table_messages [where err = "\<lparr>Namespace = ''Properties.LinuxProfile'', Value = OtherValue\<rparr>"
      and k = sample_constants and Error = sample_Error and rest = "[]"]
    exact_table_messages [where err = "\<lparr>Namespace = ''Properties.MasterProfile.Count'', Value = IntValue 2\<rparr>"
      and k = sample_constants and Error = sample_Error and rest = "[]"]
    exact_table_messages [where err = "\<lparr>Namespace = ''Properties.MasterProfile.OSDiskSizeGB'', Value = IntValue 4096\<rparr>"
      and k = sample_constants and Error = sample_Error and rest = "[]" and v = 4096]
    exact_table_messages [where err = "\<lparr>Namespace = ''Properties.MasterProfile.IPAddressCount'', Value = IntValue 0\<rparr>"
      and k = sample_constants and Error = sample_Error and rest = "[]"]
    exact_table_messages [where err = "\<lparr>Namespace = ''Properties.MasterProfile.StorageProfile'', Value = StringValue ''Premium''\<rparr>"
      and k = sample_constants and Error = sample_Error and rest = "[]" and s = "''Premium''"]
  by (simp add: hve_defs fmt_defs fmt_eval)






text \<open>
  Claim C3. The message of the last statement is what a namespace gets that passes none
  of the tests the code makes (lemma \<open>fallback_when_no_test_holds\<close>). The claim is about
  every namespace outside the case labels and the documented patterns, and there it fails:
  the VM-size test of the pattern stage is the suffix \<^verbatim>\<open>VMSize\<close>, without the leading
  dot that \<^verbatim>\<open>.Name\<close> beside it and every other suffix test has. The namespace
  \<^verbatim>\<open>Properties.AgentPoolProfiles[0].CustomVMSize\<close> is no case label and carries none of
  the documented suffixes and substrings, \<^verbatim>\<open>.VMSize\<close> included; for every value and
  every rest of the batch the translator returns the missing-field message for it, which
  is not the message of the last statement.
\<close>

theorem dotless_VMSize_not_fallback:
  "HandleValidationErrors k Error
     (\<lparr>Namespace = ''Properties.AgentPoolProfiles[0].CustomVMSize'', Value = v\<rparr> # rest)
     = Inr ''missing Properties.AgentPoolProfiles[0].CustomVMSize''
   \<and> HandleValidationErrors k Error
     (\<lparr>Namespace = ''Properties.AgentPoolProfiles[0].CustomVMSize'', Value = v\<rparr> # rest)
     \<noteq> Inr (''Namespace '' @ ''Properties.AgentPoolProfiles[0].CustomVMSize'' @ '' is not caught, ''
            @ Error (\<lparr>Namespace = ''Properties.AgentPoolProfiles[0].CustomVMSize'', Value = v\<rparr> # rest))
   \<and> ''Properties.AgentPoolProfiles[0].CustomVMSize''
       \<notin> set [''Properties.OrchestratorProfile'',
                   ''Properties.OrchestratorProfile.OrchestratorType'',
                   ''Properties.MasterProfile'', ''Properties.MasterProfile.DNSPrefix'',
                   ''Properties.MasterProfile.VMSize'',
                   ''Properties.LinuxProfile'', ''Properties.ServicePrincipalProfile.ClientID'',
                   ''Properties.WindowsProfile.AdminUsername'',
                   ''Properties.WindowsProfile.AdminPassword'',
                   ''Properties.MasterProfile.Count'',
                   ''Properties.MasterProfile.OSDiskSizeGB'',
                   ''Properties.MasterProfile.IPAddressCount'',
                   ''Properties.MasterProfile.StorageProfile'']
   \<and> HasPrefix ''Properties.AgentPoolProfiles[0].CustomVMSize'' ''Properties.AgentPoolProfiles''
   \<and> \<not> HasSuffix ''Properties.AgentPoolProfiles[0].CustomVMSize'' ''.Name''
   \<and> \<not> HasSuffix ''Properties.AgentPoolProfiles[0].CustomVMSize'' ''.VMSize''
   \<and> \<not> HasSuffix ''Properties.AgentPoolProfiles[0].CustomVMSize'' ''.Count''
   \<and> \<not> HasSuffix ''Properties.AgentPoolProfiles[0].CustomVMSize'' ''.OSDiskSizeGB''
   \<and> \<not> Contains ''Properties.AgentPoolProfiles[0].CustomVMSize'' ''.Ports''
   \<and> \<not> HasSuffix ''Properties.AgentPoolProfiles[0].CustomVMSize'' ''.StorageProfile''
   \<and> \<not> Contains ''Properties.AgentPoolProfiles[0].CustomVMSize'' ''.DiskSizesGB''
   \<and> \<not> HasSuffix ''Properties.AgentPoolProfiles[0].CustomVMSize'' ''.IPAddressCount''
   \<and> HasSuffix ''Properties.AgentPoolProfiles[0].CustomVMSize'' ''VMSize''"
proof -
  have msg: "HandleValidationErrors k Error
     (\<lparr>Namespace = ''Properties.AgentPoolProfiles[0].CustomVMSize'', Value = v\<rparr> # rest)
     = Inr ''missing Properties.AgentPoolProfiles[0].CustomVMSize''"
    by (simp add: hve_defs fmt_defs HasPrefix_def HasSuffix_def)
  have tests: "HasPrefix ''Properties.AgentPoolProfiles[0].CustomVMSize'' ''Properties.AgentPoolProfiles''
   \<and> \<not> HasSuffix ''Properties.AgentPoolProfiles[0].CustomVMSize'' ''.Name''
   \<and> \<not> HasSuffix ''Properties.AgentPoolProfiles[0].CustomVMSize'' ''.VMSize''
   \<and> \<not> HasSuffix ''Properties.AgentPoolProfiles[0].CustomVMSize'' ''.Count''
   \<and> \<not> HasSuffix ''Properties.AgentPoolProfiles[0].CustomVMSize'' ''.OSDiskSizeGB''
   \<and> \<not> Contains ''Properties.AgentPoolProfiles[0].CustomVMSize'' ''.Ports''
   \<and> \<not> HasSuffix ''Properties.AgentPoolProfiles[0].CustomVMSize'' ''.StorageProfile''
   \<and> \<not> Contains ''Properties.AgentPoolProfiles[0].CustomVMSize'' ''.DiskSizesGB''
   \<and> \<not> HasSuffix ''Properties.AgentPoolProfiles[0].CustomVMSize'' ''.IPAddressCount''
   \<and> HasSuffix ''Properties.AgentPoolProfiles[0].CustomVMSize'' ''VMSize''"
    by (simp add: HasPrefix_def HasSuffix_def)
  show ?thesis
    by (simp only: msg tests) simp
qed

text \<open>
  Claim C7. For the namespace \<^verbatim>\<open>Properties.MasterProfile.StorageProfile\<close> the message
  names two storage profiles, \<open>StorageAccount\<close> and \<open>ManagedDisks\<close>; for an agent-pool
  namespace that ends in \<^verbatim>\<open>.StorageProfile\<close> and reaches that test (it does not
  contain \<^verbatim>\<open>.Ports\<close>) the message names three, these two and \<open>Ephemeral\<close>. The
  offending value is a \<^verbatim>\<open>string\<close> in both.
\<close>

theorem storage_profile_messages:
  "(Namespace err = ''Properties.MasterProfile.StorageProfile'' \<and> Value err = StringValue s
      \<longrightarrow> HandleValidationErrors k Error (err # rest)
            = Inr (''Unknown storageProfile '' @ [CHR 0x27] @ s @ [CHR 0x27]
                   @ ''. Specify either '' @ StorageAccount k @ '' or '' @ ManagedDisks k))
   \<and> (HasPrefix (Namespace err) ''Properties.AgentPoolProfiles''
        \<and> HasSuffix (Namespace err) ''.StorageProfile'' \<and> \<not> Contains (Namespace err) ''.Ports''
        \<and> Value err = StringValue s
      \<longrightarrow> HandleValidationErrors k Error (err # rest)
            = Inr (''Unknown storageProfile '' @ [CHR 0x27] @ s @ [CHR 0x27] @ ''. Specify ''
                   @ StorageAccount k @ '', '' @ ManagedDisks k @ '', or '' @ Ephemeral k))"
proof (intro conjI impI)
  assume "Namespace err = ''Properties.MasterProfile.StorageProfile'' \<and> Value err = StringValue s"
  then show "HandleValidationErrors k Error (err # rest)
            = Inr (''Unknown storageProfile '' @ [CHR 0x27] @ s @ [CHR 0x27]
                   @ ''. Specify either '' @ StorageAccount k @ '' or '' @ ManagedDisks k)"
    by (simp add: hve_defs fmt_defs)
next
  let ?ns = "Namespace err"
  assume h: "HasPrefix ?ns ''Properties.AgentPoolProfiles''
        \<and> HasSuffix ?ns ''.StorageProfile'' \<and> \<not> Contains ?ns ''.Ports''
        \<and> Value err = StringValue s"
  then have pre: "HasPrefix ?ns ''Properties.AgentPoolProfiles''"
    and suf: "HasSuffix ?ns ''.StorageProfile''" by simp_all
  have "\<not> HasSuffix ?ns ''.Name'' \<and> \<not> HasSuffix ?ns ''VMSize'' \<and> \<not> HasSuffix ?ns ''.Count''
      \<and> \<not> HasSuffix ?ns ''.OSDiskSizeGB''"
    using suf by (intro conjI; elim HasSuffix_excl[rotated 2]) (simp_all add: suffix_to_prefix)
  with h show "HandleValidationErrors k Error (err # rest)
            = Inr (''Unknown storageProfile '' @ [CHR 0x27] @ s @ [CHR 0x27] @ ''. Specify ''
                   @ StorageAccount k @ '', '' @ ManagedDisks k @ '', or '' @ Ephemeral k)"
    by (simp add: agent_pool_stage [OF pre] Let_def)
qed

theorem storage_profile_messages_witness:
  "HandleValidationErrors sample_constants sample_Error
     [\<lparr>Namespace = ''Properties.MasterProfile.StorageProfile'', Value = StringValue ''Ephemeral''\<rparr>]
     = Inr ''Unknown storageProfile 'Ephemeral'. Specify either StorageAccount or ManagedDisks''
   \<and> HandleValidationErrors sample_constants sample_Error
     [\<lparr>Namespace = ''Properties.AgentPoolProfiles[1].StorageProfile'', Value = StringValue ''Floppy''\<rparr>]
     = Inr ''Unknown storageProfile 'Floppy'. Specify StorageAccount, ManagedDisks, or Ephemeral''"
proof (intro conjI)
  show "HandleValidationErrors sample_constants sample_Error
     [\<lparr>Namespace = ''Properties.MasterProfile.StorageProfile'', Value = StringValue ''Ephemeral''\<rparr>]
     = Inr ''Unknown storageProfile 'Ephemeral'. Specify either StorageAccount or ManagedDisks''"
    using storage_profile_messages [where k = sample_constants and rest = "[]"
        and Error = sample_Error and s = "''Ephemeral''"
        and err = "\<lparr>Namespace = ''Properties.MasterProfile.StorageProfile'', Value = StringValue ''Ephemeral''\<rparr>"]
    by (simp add: sample_constants_def)
  show "HandleValidationErrors sample_constants sample_Error
     [\<lparr>Namespace = ''Properties.AgentPoolProfiles[1].StorageProfile'', Value = StringValue ''Floppy''\<rparr>]
     = Inr ''Unknown storageProfile 'Floppy'. Specify StorageAccount, ManagedDisks, or Ephemeral''"
    using storage_profile_messages [where k = sample_constants and rest = "[]"
        and Error = sample_Error and s = "''Floppy''"
        and err = "\<lparr>Namespace = ''Properties.AgentPoolProfiles[1].StorageProfile'', Value = StringValue ''Floppy''\<rparr>"]
    by (simp add: HasPrefix_def HasSuffix_def sample_constants_def)
qed


text \<open>
  Claim C8, as the code has it. The two templates that print the offending value take it
  out of its interface by a type assertion, \<^verbatim>\<open>.(int)\<close> for the OS disk size and
  \<^verbatim>\<open>.(string)\<close> for the storage profile. With a value of another type the assertion
  panics and no message is returned: first a string on the master OS-disk-size path, then
  an integer on an agent-pool storage-profile path.
\<close>

theorem mistyped_value_panics:
  "HandleValidationErrors sample_constants sample_Error
     [\<lparr>Namespace = ''Properties.MasterProfile.OSDiskSizeGB'', Value = StringValue ''large''\<rparr>]
     = Inl TypeAssertionFailed
   \<and> HandleValidationErrors sample_constants sample_Error
     [\<lparr>Namespace = ''Properties.AgentPoolProfiles[0].StorageProfile'', Value = IntValue 3\<rparr>]
     = Inl TypeAssertionFailed"
  by (simp add: hve_defs HasPrefix_def HasSuffix_def)

text \<open>
  Claim C8, amended. For a batch with a first failure whose value is an \<^verbatim>\<open>int\<close> where
  the OS-disk-size template is reached and a \<^verbatim>\<open>string\<close> where a storage-profile
  template is reached, the translator returns a message. The first failure alone chooses
  it: with another tail the message is the same, except in the last statement, where the
  message is the same sentence around the text of the batch it was given.
\<close>

theorem typed_value_gets_message:
  assumes int: "Namespace err = ''Properties.MasterProfile.OSDiskSizeGB''
            \<or> (HasPrefix (Namespace err) ''Properties.AgentPoolProfiles''
               \<and> HasSuffix (Namespace err) ''.OSDiskSizeGB'')
          \<Longrightarrow> \<exists>i. Value err = IntValue i"
    and str: "Namespace err = ''Properties.MasterProfile.StorageProfile''
            \<or> (HasPrefix (Namespace err) ''Properties.AgentPoolProfiles''
               \<and> HasSuffix (Namespace err) ''.StorageProfile''
               \<and> \<not> Contains (Namespace err) ''.Ports'')
          \<Longrightarrow> \<exists>s. Value err = StringValue s"
  shows "(\<exists>msg. HandleValidationErrors k Error (err # rest) = Inr msg)
       \<and> (HandleValidationErrors k Error (err # rest) = HandleValidationErrors k Error (err # rest')
          \<or> (HandleValidationErrors k Error (err # rest)
                = Inr (''Namespace '' @ Namespace err @ '' is not caught, '' @ Error (err # rest))
             \<and> HandleValidationErrors k Error (err # rest')
                = Inr (''Namespace '' @ Namespace err @ '' is not caught, '' @ Error (err # rest'))))"
proof (cases "HasPrefix (Namespace err) ''Properties.AgentPoolProfiles''")
  case True
  note stage = agent_pool_stage [OF True]
  show ?thesis
    using int str True
    by (auto simp: stage Let_def split: val.splits)
next
  case False
  show ?thesis
  proof (cases "Namespace err \<in> set [''Properties.OrchestratorProfile'',
                   ''Properties.OrchestratorProfile.OrchestratorType'',
                   ''Properties.MasterProfile'', ''Properties.MasterProfile.DNSPrefix'',
                   ''Properties.MasterProfile.VMSize'',
                   ''Properties.LinuxProfile'', ''Properties.ServicePrincipalProfile.ClientID'',
                   ''Properties.WindowsProfile.AdminUsername'',
                   ''Properties.WindowsProfile.AdminPassword'',
                   ''Properties.MasterProfile.Count'',
                   ''Properties.MasterProfile.OSDiskSizeGB'',
                   ''Properties.MasterProfile.IPAddressCount'',
                   ''Properties.MasterProfile.StorageProfile'']")
    case out: False
    show ?thesis
      by (simp add: exact_stage [OF False out])
  next
    case True
    then consider
        (missing) "Namespace err \<in> set [''Properties.OrchestratorProfile'',
                   ''Properties.OrchestratorProfile.OrchestratorType'',
                   ''Properties.MasterProfile'', ''Properties.MasterProfile.DNSPrefix'',
                   ''Properties.MasterProfile.VMSize'',
                   ''Properties.LinuxProfile'', ''Properties.ServicePrincipalProfile.ClientID'',
                   ''Properties.WindowsProfile.AdminUsername'',
                   ''Properties.WindowsProfile.AdminPassword'']"
      | (count) "Namespace err = ''Properties.MasterProfile.Count''"
      | (disk) "Namespace err = ''Properties.MasterProfile.OSDiskSizeGB''"
      | (ip) "Namespace err = ''Properties.MasterProfile.IPAddressCount''"
      | (storage) "Namespace err = ''Properties.MasterProfile.StorageProfile''"
      by auto
    then show ?thesis
    proof cases
      case missing
      then show ?thesis by (simp add: hve_defs fmt_defs)
    next
      case count
      then show ?thesis by (simp add: hve_defs fmt_defs)
    next
      case disk
      with int obtain i where "Value err = IntValue i" by blast
      with disk show ?thesis by (simp add: hve_defs fmt_defs)
    next
      case ip
      then show ?thesis by (simp add: hve_defs fmt_defs)
    next
      case storage
      with str obtain s where "Value err = StringValue s" by blast
      with storage show ?thesis by (simp add: hve_defs fmt_defs)
    qed
  qed
qed

theorem typed_value_gets_message_witness:
  "(\<exists>i. Value \<lparr>Namespace = ''Properties.AgentPoolProfiles[0].OSDiskSizeGB'', Value = IntValue 4096\<rparr>
          = IntValue i)
   \<and> (\<exists>msg. HandleValidationErrors sample_constants sample_Error
         [\<lparr>Namespace = ''Properties.AgentPoolProfiles[0].OSDiskSizeGB'', Value = IntValue 4096\<rparr>,
          \<lparr>Namespace = ''Properties.Bogus.Field'', Value = OtherValue\<rparr>] = Inr msg)
   \<and> HandleValidationErrors sample_constants sample_Error
         [\<lparr>Namespace = ''Properties.AgentPoolProfiles[0].OSDiskSizeGB'', Value = IntValue 4096\<rparr>,
          \<lparr>Namespace = ''Properties.Bogus.Field'', Value = OtherValue\<rparr>]
       = HandleValidationErrors sample_constants sample_Error
         [\<lparr>Namespace = ''Properties.AgentPoolProfiles[0].OSDiskSizeGB'', Value = IntValue 4096\<rparr>]"
  using typed_value_gets_message [where k = sample_constants and Error = sample_Error
      and err = "\<lparr>Namespace = ''Properties.AgentPoolProfiles[0].OSDiskSizeGB'', Value = IntValue 4096\<rparr>"
      and rest = "[\<lparr>Namespace = ''Properties.Bogus.Field'', Value = OtherValue\<rparr>]"
      and rest' = "[]"]
  by (simp add: HasPrefix_def HasSuffix_def sample_Error_def hve_defs fmt_defs)


section \<open>The composers\<close>

lemma apply_overrides_append:
  "apply_overrides (fs @ gs) c =
     (case apply_overrides fs c of Inl e \<Rightarrow> Inl e | Inr c' \<Rightarrow> apply_overrides gs c')"
  by (induction fs arbitrary: c) (auto split: prod.splits option.splits)

lemma apply_overrides_fails:
  assumes "apply_overrides pre d = Inr c" and "f c = (c', Some err)"
  shows "apply_overrides (pre @ f # post) d = Inl err"
  using assms by (simp add: apply_overrides_append)

lemma apply_overrides_preserves:
  assumes "apply_overrides post c = Inr c'" and "\<forall>h\<in>set post. \<forall>x. g (fst (h x)) = g x"
  shows "g c' = g c"
  using assms
proof (induction post arbitrary: c)
  case Nil
  then show ?case by simp
next
  case (Cons h post)
  from Cons.prems(1) obtain c1 where h: "h c = (c1, None)" and run: "apply_overrides post c1 = Inr c'"
    by (auto split: prod.splits option.splits)
  from Cons.prems(2) h have "g c1 = g c" by (metis fst_conv list.set_intros(1))
  moreover from Cons.IH [OF run] Cons.prems(2) have "g c' = g c1" by simp
  ultimately show ?case by simp
qed

lemma apply_overrides_last_writer:
  assumes run: "apply_overrides (pre @ f # post) d = Inr c"
    and sets: "\<forall>x. g (fst (f x)) = b"
    and keeps: "\<forall>h\<in>set post. \<forall>x. g (fst (h x)) = g x"
  shows "g c = b"
proof -
  from run obtain c1 where "apply_overrides pre d = Inr c1"
    and step: "apply_overrides (f # post) c1 = Inr c"
    by (auto simp: apply_overrides_append split: sum.splits)
  from step obtain c2 where f: "f c1 = (c2, None)" and rest: "apply_overrides post c2 = Inr c"
    by (auto split: prod.splits option.splits)
  from sets f have "g c2 = b" by (metis fst_conv)
  with apply_overrides_preserves [OF rest keeps] show ?thesis by simp
qed


text \<open>
  With no override and no data-directory option, each composer hands the defaults to its
  encoder as they are.
\<close>

lemma defaults_reach_encoder:
  assumes "opts (ContainerDataDirKey k) = None"
  shows "GetDockerConfig k d MarshalIndent opts [] = MarshalIndent d '''' ''    ''"
    and "GetContainerdConfig k d2 Encode opts [] = Encode d2"
  using assms by (simp_all add: GetDockerConfig_def GetContainerdConfig_def)

text \<open>
  Claim C6. When the overrides before one have all returned nil and that one returns an
  error, each composer returns the empty string and that very error. Whatever overrides
  follow it in the sequence and whatever the encoder is, the result is this one: they are
  not run.
\<close>

theorem failing_override_aborts:
  "(apply_overrides pre d = Inr c \<and> f c = (c', Some err)
      \<longrightarrow> GetDockerConfig k d MarshalIndent opts (pre @ f # post) = ('''', Some err))
   \<and> (apply_overrides pre2 d2 = Inr c2 \<and> f2 c2 = (c2', Some err2)
      \<longrightarrow> GetContainerdConfig k d2 Encode opts2 (pre2 @ f2 # post2) = ('''', Some err2))"
proof (intro conjI impI)
  assume "apply_overrides pre d = Inr c \<and> f c = (c', Some err)"
  then have "apply_overrides (pre @ f # post) d = Inl err"
    by (simp add: apply_overrides_fails)
  then show "GetDockerConfig k d MarshalIndent opts (pre @ f # post) = ('''', Some err)"
    by (simp add: GetDockerConfig_def)
next
  assume "apply_overrides pre2 d2 = Inr c2 \<and> f2 c2 = (c2', Some err2)"
  then have "apply_overrides (pre2 @ f2 # post2) d2 = Inl err2"
    by (simp add: apply_overrides_fails)
  then show "GetContainerdConfig k d2 Encode opts2 (pre2 @ f2 # post2) = ('''', Some err2)"
    by (simp add: GetContainerdConfig_def)
qed

theorem failing_override_aborts_witness:
  "GetDockerConfig sample_constants sample_docker_defaults sample_MarshalIndent Map.empty
     [set_default_runtime ''kata'', failing_override ''no such runtime'', set_data_root ''/mnt'']
     = ('''', Some ''no such runtime'')
   \<and> GetContainerdConfig sample_constants sample_containerd_defaults sample_Encode Map.empty
     [ContainerdKubenetOverride, failing_override ''bad image'', ContainerdSandboxImageOverrider ''pause:3.2'']
     = ('''', Some ''bad image'')"
  using failing_override_aborts [where k = sample_constants
      and d = sample_docker_defaults and MarshalIndent = sample_MarshalIndent and opts = Map.empty
      and pre = "[set_default_runtime ''kata'']" and f = "failing_override ''no such runtime''"
      and post = "[set_data_root ''/mnt'']"
      and c = "sample_docker_defaults\<lparr>DefaultRuntime := ''kata''\<rparr>"
      and c' = "sample_docker_defaults\<lparr>DefaultRuntime := ''kata''\<rparr>"
      and err = "''no such runtime''"
      and ?d2.0 = sample_containerd_defaults and Encode = sample_Encode and ?opts2.0 = Map.empty
      and ?pre2.0 = "[ContainerdKubenetOverride]" and ?f2.0 = "failing_override ''bad image''"
      and ?post2.0 = "[ContainerdSandboxImageOverrider ''pause:3.2'']"
      and ?c2.0 = "fst (ContainerdKubenetOverride sample_containerd_defaults)"
      and ?c2' = "fst (ContainerdKubenetOverride sample_containerd_defaults)"
      and ?err2.0 = "''bad image''"]
  by (simp add: set_default_runtime_def failing_override_def ContainerdKubenetOverride_def)

text \<open>
  Claim C5. When every override has returned nil, the composer looks the data-directory
  key up in the options. If it is there, the configuration that is encoded is the one the
  overrides left with its data directory (\<open>DataRoot\<close> for docker, \<open>Root\<close> for
  containerd) replaced by the option's value, whatever the overrides wrote there; if it is
  not, it is the configuration the overrides left, unchanged.
\<close>

theorem data_dir_option_overwrites:
  "(apply_overrides overrides d = Inr c
      \<longrightarrow> (\<forall>dir. opts (ContainerDataDirKey k) = Some dir
             \<longrightarrow> GetDockerConfig k d MarshalIndent opts overrides
                   = MarshalIndent (c\<lparr>DataRoot := dir\<rparr>) '''' ''    ''
                 \<and> DataRoot (c\<lparr>DataRoot := dir\<rparr>) = dir)
          \<and> (opts (ContainerDataDirKey k) = None
             \<longrightarrow> GetDockerConfig k d MarshalIndent opts overrides = MarshalIndent c '''' ''    ''))
   \<and> (apply_overrides overrides2 d2 = Inr c2
      \<longrightarrow> (\<forall>dir. opts2 (ContainerDataDirKey k) = Some dir
             \<longrightarrow> GetContainerdConfig k d2 Encode opts2 overrides2 = Encode (c2\<lparr>Root := dir\<rparr>)
                 \<and> Root (c2\<lparr>Root := dir\<rparr>) = dir)
          \<and> (opts2 (ContainerDataDirKey k) = None
             \<longrightarrow> GetContainerdConfig k d2 Encode opts2 overrides2 = Encode c2))"
  by (simp add: GetDockerConfig_def GetContainerdConfig_def)

theorem data_dir_option_overwrites_witness:
  "GetDockerConfig sample_constants sample_docker_defaults sample_MarshalIndent
     [''dataDir'' \<mapsto> ''/mnt/docker''] [set_data_root ''/override'']
     = (''    data-root=/mnt/docker default-runtime=runc'', None)
   \<and> GetDockerConfig sample_constants sample_docker_defaults sample_MarshalIndent
     Map.empty [set_data_root ''/override'']
     = (''    data-root=/override default-runtime=runc'', None)
   \<and> GetContainerdConfig sample_constants sample_containerd_defaults sample_Encode
     [''dataDir'' \<mapsto> ''/mnt/containerd''] [set_root ''/override'']
     = (''root=/mnt/containerd sandbox_image=pause:1.0 conf_template='', None)
   \<and> GetContainerdConfig sample_constants sample_containerd_defaults sample_Encode
     Map.empty [set_root ''/override'']
     = (''root=/override sandbox_image=pause:1.0 conf_template='', None)"
  using
    data_dir_option_overwrites [where k = sample_constants
      and d = sample_docker_defaults and MarshalIndent = sample_MarshalIndent
      and opts = "[''dataDir'' \<mapsto> ''/mnt/docker'']" and overrides = "[set_data_root ''/override'']"
      and c = "sample_docker_defaults\<lparr>DataRoot := ''/override''\<rparr>"
      and ?d2.0 = sample_containerd_defaults and Encode = sample_Encode
      and ?opts2.0 = "[''dataDir'' \<mapsto> ''/mnt/containerd'']" and ?overrides2.0 = "[set_root ''/override'']"
      and ?c2.0 = "sample_containerd_defaults\<lparr>Root := ''/override''\<rparr>"]
    data_dir_option_overwrites [where k = sample_constants
      and d = sample_docker_defaults and MarshalIndent = sample_MarshalIndent
      and opts = Map.empty and overrides = "[set_data_root ''/override'']"
      and c = "sample_docker_defaults\<lparr>DataRoot := ''/override''\<rparr>"
      and ?d2.0 = sample_containerd_defaults and Encode = sample_Encode
      and ?opts2.0 = Map.empty and ?overrides2.0 = "[set_root ''/override'']"
      and ?c2.0 = "sample_containerd_defaults\<lparr>Root := ''/override''\<rparr>"]
  by (simp add: set_data_root_def set_root_def sample_constants_def sample_docker_defaults_def
      sample_containerd_defaults_def sample_MarshalIndent_def sample_Encode_def)


text \<open>
  Claim C4. The overrides are applied from left to right. Take a sequence in which all
  overrides return nil, an override that writes the value \<open>a\<close> to a field (read by \<open>g\<close>)
  and a later one that writes a different value \<open>b\<close> to it, the overrides after the later
  one leaving the field as it is. Then the configuration that is encoded has \<open>b\<close> in the
  field, not \<open>a\<close>. The field is any field but the data directory when the options give
  one, which is then written after the overrides.
\<close>

theorem later_override_wins:
  "(apply_overrides (pre @ f1 # mid @ f2 # post) d = Inr c
      \<and> (\<forall>x. g (fst (f1 x)) = a) \<and> (\<forall>x. g (fst (f2 x)) = b) \<and> a \<noteq> b
      \<and> (\<forall>h\<in>set post. \<forall>x. g (fst (h x)) = g x)
      \<and> (opts (ContainerDataDirKey k) = None \<or> (\<forall>x dir. g (x\<lparr>DataRoot := dir\<rparr>) = g x))
     \<longrightarrow> GetDockerConfig k d MarshalIndent opts (pre @ f1 # mid @ f2 # post)
           = MarshalIndent (case opts (ContainerDataDirKey k) of
                              None \<Rightarrow> c | Some dir \<Rightarrow> c\<lparr>DataRoot := dir\<rparr>) '''' ''    ''
         \<and> g (case opts (ContainerDataDirKey k) of
                 None \<Rightarrow> c | Some dir \<Rightarrow> c\<lparr>DataRoot := dir\<rparr>) = b
         \<and> g (case opts (ContainerDataDirKey k) of
                 None \<Rightarrow> c | Some dir \<Rightarrow> c\<lparr>DataRoot := dir\<rparr>) \<noteq> a)
   \<and> (apply_overrides (pre2 @ f3 # mid2 @ f4 # post2) d2 = Inr c2
      \<and> (\<forall>x. g2 (fst (f3 x)) = a2) \<and> (\<forall>x. g2 (fst (f4 x)) = b2) \<and> a2 \<noteq> b2
      \<and> (\<forall>h\<in>set post2. \<forall>x. g2 (fst (h x)) = g2 x)
      \<and> (opts2 (ContainerDataDirKey k) = None \<or> (\<forall>x dir. g2 (x\<lparr>Root := dir\<rparr>) = g2 x))
     \<longrightarrow> GetContainerdConfig k d2 Encode opts2 (pre2 @ f3 # mid2 @ f4 # post2)
           = Encode (case opts2 (ContainerDataDirKey k) of
                       None \<Rightarrow> c2 | Some dir \<Rightarrow> c2\<lparr>Root := dir\<rparr>)
         \<and> g2 (case opts2 (ContainerDataDirKey k) of
                  None \<Rightarrow> c2 | Some dir \<Rightarrow> c2\<lparr>Root := dir\<rparr>) = b2
         \<and> g2 (case opts2 (ContainerDataDirKey k) of
                  None \<Rightarrow> c2 | Some dir \<Rightarrow> c2\<lparr>Root := dir\<rparr>) \<noteq> a2)"
proof (intro conjI impI)
  assume h: "apply_overrides (pre @ f1 # mid @ f2 # post) d = Inr c
      \<and> (\<forall>x. g (fst (f1 x)) = a) \<and> (\<forall>x. g (fst (f2 x)) = b) \<and> a \<noteq> b
      \<and> (\<forall>h\<in>set post. \<forall>x. g (fst (h x)) = g x)
      \<and> (opts (ContainerDataDirKey k) = None \<or> (\<forall>x dir. g (x\<lparr>DataRoot := dir\<rparr>) = g x))"
  let ?final = "case opts (ContainerDataDirKey k) of None \<Rightarrow> c | Some dir \<Rightarrow> c\<lparr>DataRoot := dir\<rparr>"
  from h have run: "apply_overrides ((pre @ f1 # mid) @ f2 # post) d = Inr c" by simp
  from h have "g c = b"
    by (intro apply_overrides_last_writer [OF run]) simp_all
  with h have final: "g ?final = b" by (auto split: option.splits)
  from h show "GetDockerConfig k d MarshalIndent opts (pre @ f1 # mid @ f2 # post)
      = MarshalIndent ?final '''' ''    ''"
    by (simp add: GetDockerConfig_def split: option.splits)
  from final show "g ?final = b" .
  from final h show "g ?final \<noteq> a" by auto
next
  assume h: "apply_overrides (pre2 @ f3 # mid2 @ f4 # post2) d2 = Inr c2
      \<and> (\<forall>x. g2 (fst (f3 x)) = a2) \<and> (\<forall>x. g2 (fst (f4 x)) = b2) \<and> a2 \<noteq> b2
      \<and> (\<forall>h\<in>set post2. \<forall>x. g2 (fst (h x)) = g2 x)
      \<and> (opts2 (ContainerDataDirKey k) = None \<or> (\<forall>x dir. g2 (x\<lparr>Root := dir\<rparr>) = g2 x))"
  let ?final = "case opts2 (ContainerDataDirKey k) of None \<Rightarrow> c2 | Some dir \<Rightarrow> c2\<lparr>Root := dir\<rparr>"
  from h have run: "apply_overrides ((pre2 @ f3 # mid2) @ f4 # post2) d2 = Inr c2" by simp
  from h have "g2 c2 = b2"
    by (intro apply_overrides_last_writer [OF run]) simp_all
  with h have final: "g2 ?final = b2" by (auto split: option.splits)
  from h show "GetContainerdConfig k d2 Encode opts2 (pre2 @ f3 # mid2 @ f4 # post2)
      = Encode ?final"
    by (simp add: GetContainerdConfig_def split: option.splits)
  from final show "g2 ?final = b2" .
  from final h show "g2 ?final \<noteq> a2" by auto
qed

theorem later_override_wins_witness:
  "GetDockerConfig sample_constants sample_docker_defaults sample_MarshalIndent
     [''dataDir'' \<mapsto> ''/mnt/docker'']
     [set_default_runtime ''kata'', set_data_root ''/override'', set_default_runtime ''nvidia'']
     = (''    data-root=/mnt/docker default-runtime=nvidia'', None)
   \<and> GetContainerdConfig sample_constants sample_containerd_defaults sample_Encode Map.empty
     [ContainerdSandboxImageOverrider ''pause:3.1'', ContainerdKubenetOverride,
      ContainerdSandboxImageOverrider ''pause:3.2'']
     = (''root=/var/lib/containerd sandbox_image=pause:3.2 conf_template=/etc/containerd/kubenet_template.conf'',
        None)"
  using later_override_wins [where k = sample_constants
      and d = sample_docker_defaults and MarshalIndent = sample_MarshalIndent
      and opts = "[''dataDir'' \<mapsto> ''/mnt/docker'']"
      and pre = "[]" and ?f1.0 = "set_default_runtime ''kata''"
      and mid = "[set_data_root ''/override'']" and ?f2.0 = "set_default_runtime ''nvidia''"
      and post = "[]" and g = DefaultRuntime and a = "''kata''" and b = "''nvidia''"
      and c = "\<lparr>DataRoot = ''/override'', DefaultRuntime = ''nvidia'', DockerDaemonRuntimes = None\<rparr>"
      and ?d2.0 = sample_containerd_defaults and Encode = sample_Encode and ?opts2.0 = Map.empty
      and ?pre2.0 = "[]" and ?f3.0 = "ContainerdSandboxImageOverrider ''pause:3.1''"
      and ?mid2.0 = "[ContainerdKubenetOverride]"
      and ?f4.0 = "ContainerdSandboxImageOverrider ''pause:3.2''" and ?post2.0 = "[]"
      and ?g2.0 = "\<lambda>x. SandboxImage (IoContainerdGrpcV1Cri (Plugins x))"
      and ?a2.0 = "''pause:3.1''" and ?b2.0 = "''pause:3.2''"
      and ?c2.0 = "\<lparr>Root = ''/var/lib/containerd'',
          Plugins = \<lparr>IoContainerdGrpcV1Cri = \<lparr>SandboxImage = ''pause:3.2'',
            CNI = \<lparr>ConfTemplate = ''/etc/containerd/kubenet_template.conf''\<rparr>\<rparr>\<rparr>\<rparr>"]
  by (simp add: set_default_runtime_def set_data_root_def ContainerdSandboxImageOverrider_def
      ContainerdKubenetOverride_def sample_constants_def sample_docker_defaults_def
      sample_containerd_defaults_def sample_MarshalIndent_def sample_Encode_def)

text \<open>
  Claim C10. \<open>DockerNvidiaOverride\<close> returns nil. In the configuration it leaves, the
  default runtime is \<^verbatim>\<open>nvidia\<close>; the registry is a map (not nil) that gives the key
  \<^verbatim>\<open>nvidia\<close> the path \<^verbatim>\<open>/usr/bin/nvidia-container-runtime\<close> with an empty, non-nil
  argument list, and gives every other key what the registry gave it before (nothing,
  when the registry was nil); the data directory and the fields that the function does not
  mention are as they were.
\<close>

theorem DockerNvidiaOverride_effect:
  "snd (DockerNvidiaOverride config) = None
   \<and> DefaultRuntime (fst (DockerNvidiaOverride config)) = ''nvidia''
   \<and> (\<exists>m. DockerDaemonRuntimes (fst (DockerNvidiaOverride config)) = Some m
          \<and> m ''nvidia''
              = Some \<lparr>Path = ''/usr/bin/nvidia-container-runtime'', RuntimeArgs = Some []\<rparr>
          \<and> (\<forall>key. key \<noteq> ''nvidia''
                \<longrightarrow> m key = (case DockerDaemonRuntimes config of
                                None \<Rightarrow> None | Some m0 \<Rightarrow> m0 key)))
   \<and> DataRoot (fst (DockerNvidiaOverride config)) = DataRoot config
   \<and> DockerConfig.more (fst (DockerNvidiaOverride config)) = DockerConfig.more config"
  by (simp add: DockerNvidiaOverride_def split: option.splits)

theorem DockerNvidiaOverride_effect_witness:
  "snd (DockerNvidiaOverride
          \<lparr>DataRoot = ''/mnt/docker'', DefaultRuntime = ''runc'',
           DockerDaemonRuntimes = Some [''runc'' \<mapsto> \<lparr>Path = ''/usr/bin/runc'', RuntimeArgs = None\<rparr>]\<rparr>
        :: DockerConfig \<times> string option) = None
   \<and> (\<exists>m. DockerDaemonRuntimes (fst (DockerNvidiaOverride
          \<lparr>DataRoot = ''/mnt/docker'', DefaultRuntime = ''runc'',
           DockerDaemonRuntimes = Some [''runc'' \<mapsto> \<lparr>Path = ''/usr/bin/runc'', RuntimeArgs = None\<rparr>]\<rparr>
        :: DockerConfig \<times> string option)) = Some m
        \<and> m ''nvidia''
            = Some \<lparr>Path = ''/usr/bin/nvidia-container-runtime'', RuntimeArgs = Some []\<rparr>
        \<and> m ''runc'' = Some \<lparr>Path = ''/usr/bin/runc'', RuntimeArgs = None\<rparr>
        \<and> m ''kata'' = None)"
  using DockerNvidiaOverride_effect [where config =
      "\<lparr>DataRoot = ''/mnt/docker'', DefaultRuntime = ''runc'',
        DockerDaemonRuntimes = Some [''runc'' \<mapsto> \<lparr>Path = ''/usr/bin/runc'', RuntimeArgs = None\<rparr>]\<rparr>"]
  by auto

end
